theory Spec2Isabelle
  imports Main "HOL-Library.Char_ord" "HOL-Library.List_Lexorder"
begin

section \<open>JavaScript values\<close>

text \<open>
  A thrown \<open>Error\<close> is modelled by its message: a computation that may throw has type
  \<open>string + 'a\<close>, with \<open>Inl message\<close> the throw. Every \<open>try/catch\<close> of the source is a
  case distinction on that sum.
\<close>

text \<open>The outcome of \<open>JSON.parse\<close> on a string, kept next to the raw string.\<close>

datatype 'a parsed = Throws string | Value 'a

text \<open>\<open>!v\<close> for an optional string: \<open>undefined\<close> and the empty string are falsy.\<close>

definition falsy :: "string option \<Rightarrow> bool" where
  "falsy v = (case v of None \<Rightarrow> True | Some s \<Rightarrow> s = [])"

text \<open>\<open>v || d\<close> for an optional string.\<close>

definition or_default :: "string option \<Rightarrow> string \<Rightarrow> string" where
  "or_default v d = (case v of None \<Rightarrow> d | Some s \<Rightarrow> if s = [] then d else s)"

definition dquote :: char where
  "dquote = CHR 0x22"

definition backslash :: char where
  "backslash = CHR 0x5C"

definition newline :: char where
  "newline = CHR 0x0A"

text \<open>A number in a template literal: the decimal digits of a natural number.\<close>

definition digit :: "nat \<Rightarrow> char" where
  "digit n = ''0123456789'' ! n"

fun decimal :: "nat \<Rightarrow> string" where
  "decimal n = (if n < 10 then [digit n] else decimal (n div 10) @ [digit (n mod 10)])"

declare decimal.simps [simp del]

definition startsWith :: "string \<Rightarrow> string \<Rightarrow> bool" where
  "startsWith s p = (take (length p) s = p)"

text \<open>\<open>s.includes(t)\<close> (the name \<open>includes\<close> is reserved): \<open>t\<close> occurs in \<open>s\<close> at some position.\<close>

fun str_includes :: "string \<Rightarrow> string \<Rightarrow> bool" where
  "str_includes [] t = (t = [])"
| "str_includes (c # s) t = (startsWith (c # s) t \<or> str_includes s t)"

text \<open>
  The regular expression \<open>/"message":"([^"]+)"/\<close> tried at the start of \<open>s\<close>: the literal
  prefix, then a non-empty run of characters other than the double quote, then a double
  quote. The run is greedy and cannot give characters back (whatever follows a shorter
  run is not a double quote), so the group is the whole run.
\<close>

definition match_here :: "string \<Rightarrow> string option" where
  "match_here s =
     (let lit = [dquote] @ ''message'' @ [dquote] @ '':'' @ [dquote] in
      if startsWith s lit then
        (let rest = drop (length lit) s;
             grp = takeWhile (\<lambda>c. c \<noteq> dquote) rest;
             after = dropWhile (\<lambda>c. c \<noteq> dquote) rest
         in if grp = [] \<or> after = [] then None else Some grp)
      else None)"

text \<open>\<open>errorMessage.match(...)\<close>: the leftmost position where the expression matches;
  the result is capture group 1.\<close>

fun match_message :: "string \<Rightarrow> string option" where
  "match_message [] = None"
| "match_message (c # s) =
     (case match_here (c # s) of Some g \<Rightarrow> Some g | None \<Rightarrow> match_message s)"

text \<open>\<open>.replace(/\\n/g, '\n')\<close>: every backslash followed by \<open>n\<close> becomes a line feed.\<close>

fun replace_newlines :: "string \<Rightarrow> string" where
  "replace_newlines (a # b # s) =
     (if a = backslash \<and> b = CHR ''n'' then newline # replace_newlines s
      else a # replace_newlines (b # s))"
| "replace_newlines s = s"

section \<open>Requests, rows and responses\<close>

text \<open>\<open>interface CreateDiagramRequest\<close>; a field that is absent is \<open>None\<close>. The fields
  \<open>diagramType\<close> and \<open>metadata\<close> carry the prefix \<open>req_\<close>, the catalog row has the same names.\<close>

record CreateDiagramRequest =
  d2Text :: "string option"
  req_diagramType :: "string option"
  format :: "string option"
  req_metadata :: "(string \<times> string) list option"

text \<open>
  The parts of \<open>APIGatewayProxyEventV2\<close> the handlers read:
  \<open>requestContext.http.method\<close> and \<open>.path\<close>, \<open>requestContext.authorizer.jwt.claims\<close>
  (\<open>None\<close> when any link of the chain is undefined), \<open>body\<close> with the outcome of
  \<open>JSON.parse(event.body)\<close>, and \<open>pathParameters\<close>.
\<close>

record event =
  httpMethod :: string
  httpPath :: string
  claims :: "(string \<times> string) list option"
  requestBody :: "string option"
  requestJson :: "CreateDiagramRequest parsed"
  pathParameters :: "(string \<times> string) list option"

text \<open>The item \<open>createDiagram\<close> puts into the table.\<close>

record item =
  PK :: string
  SK :: string
  diagramId :: string
  diagramType :: string
  createdAt :: string
  s3Key :: string
  metadata :: "(string \<times> string) list"

text \<open>An entry of the List response and the body of the Get response.\<close>

record diagram_view =
  view_diagramId :: string
  view_diagramType :: string
  view_createdAt :: string
  s3Url :: string
  svgContent :: string
  view_metadata :: "(string \<times> string) list"

text \<open>The JSON bodies the handlers build.\<close>

datatype response_body =
    Error string
  | ErrorMessage string string
  | Created string string string string string int
  | Diagrams "diagram_view list"
  | Diagram diagram_view
  | Message string

record result =
  statusCode :: nat
  body :: response_body

section \<open>The collaborators\<close>

text \<open>The body of a 200 answer of the rendering service after \<open>JSON.parse\<close>:
  the truthiness of \<open>success\<close> and the field \<open>s3Key\<close>.\<close>

record d2_response =
  success :: bool
  response_s3Key :: "string option"

text \<open>How the HTTP exchange with the rendering service ends: the \<open>end\<close> event of a
  response (status, accumulated data, and \<open>JSON.parse(data)\<close>), the \<open>error\<close> event of the
  request, or the \<open>timeout\<close> event after 25 seconds.\<close>

datatype http_outcome =
    Response nat string "d2_response parsed"
  | RequestError string
  | Timeout

text \<open>
  What the outside world does during one invocation: the clock, the random suffix, the
  rendering service (its answer, and the blobs it stored in the bucket while it
  rendered), and the failures of the AWS calls (\<open>Some message\<close>: the call throws).
  \<open>page_size\<close> is the number of items a Query reads before its page of 1 MB is full;
  \<open>first_rejected\<close> says which of the promises that reject does so first in time.
\<close>

record env =
  clock_iso :: string
  clock_id :: nat
  random_suffix :: string
  clock_start :: int
  clock_end :: int
  worker_reply :: http_outcome
  worker_stores :: "(string \<times> string) list"
  put_fails :: "string option"
  query_fails :: "string option"
  delete_fails :: "string option"
  s3_delete_fails :: "string option"
  presign :: "string \<Rightarrow> string + string"
  s3_get_fails :: "string \<Rightarrow> bool"
  page_size :: nat
  first_rejected :: nat

text \<open>The DynamoDB table (primary key \<open>PK\<close>, \<open>SK\<close>) and the S3 bucket.\<close>

record world =
  table :: "item list"
  bucket :: "string \<rightharpoonup> string"

definition same_key :: "string \<Rightarrow> string \<Rightarrow> item \<Rightarrow> bool" where
  "same_key pk sk r = (PK r = pk \<and> SK r = sk)"

text \<open>\<open>PutCommand\<close>: an item with the same primary key is replaced.\<close>

definition PutCommand :: "env \<Rightarrow> item \<Rightarrow> world \<Rightarrow> string + world" where
  "PutCommand env it w =
     (case put_fails env of
        Some e \<Rightarrow> Inl e
      | None \<Rightarrow>
          Inr (w\<lparr>table := it # filter (\<lambda>r. \<not> same_key (PK it) (SK it) r) (table w)\<rparr>))"

text \<open>
  \<open>QueryCommand\<close> with \<open>KeyConditionExpression: 'PK = :pk'\<close>: the items of one partition
  in the order of their sort keys (bytewise), reversed when \<open>ScanIndexForward\<close> is false.
  One call reads one page: the first \<open>page_size env\<close> items in that order. The
  \<open>FilterExpression: 'diagramId = :diagramId'\<close>, when there is one, is applied to the
  items read. No handler continues a query from \<open>LastEvaluatedKey\<close>, so one call is all
  a handler sees.
\<close>

definition QueryCommand ::
  "env \<Rightarrow> string \<Rightarrow> string option \<Rightarrow> bool \<Rightarrow> world \<Rightarrow> string + item list" where
  "QueryCommand env pk filterId scanIndexForward w =
     (case query_fails env of
        Some e \<Rightarrow> Inl e
      | None \<Rightarrow>
          (let part = sort_key SK (filter (\<lambda>r. PK r = pk) (table w));
               ordered = (if scanIndexForward then part else rev part);
               page = take (page_size env) ordered
           in Inr (case filterId of
                     None \<Rightarrow> page
                   | Some d \<Rightarrow> filter (\<lambda>r. diagramId r = d) page)))"

definition DeleteCommand :: "env \<Rightarrow> string \<Rightarrow> string \<Rightarrow> world \<Rightarrow> string + world" where
  "DeleteCommand env pk sk w =
     (case delete_fails env of
        Some e \<Rightarrow> Inl e
      | None \<Rightarrow> Inr (w\<lparr>table := filter (\<lambda>r. \<not> same_key pk sk r) (table w)\<rparr>))"

definition DeleteObjectCommand :: "env \<Rightarrow> string \<Rightarrow> world \<Rightarrow> string + world" where
  "DeleteObjectCommand env k w =
     (case s3_delete_fails env of
        Some e \<Rightarrow> Inl e
      | None \<Rightarrow> Inr (w\<lparr>bucket := (bucket w)(k := None)\<rparr>))"

definition GetObjectCommand :: "env \<Rightarrow> string \<Rightarrow> world \<Rightarrow> string + string" where
  "GetObjectCommand env k w =
     (if s3_get_fails env k then Inl ''S3 request failed''
      else case bucket w k of
             None \<Rightarrow> Inl ''The specified key does not exist.''
           | Some content \<Rightarrow> Inr content)"

section \<open>The handlers\<close>

definition unauthorized :: string where
  "unauthorized = ''Unauthorized: No valid user identity found''"

definition getUserId :: "event \<Rightarrow> string + string" where
  "getUserId ev =
     (case claims ev of
        None \<Rightarrow> Inl unauthorized
      | Some cl \<Rightarrow>
          (case map_of cl ''sub'' of
             None \<Rightarrow> Inl unauthorized
           | Some s \<Rightarrow> if s = [] then Inl unauthorized else Inr s))"

text \<open>
  \<open>callD2Service\<close>: the promise resolves with the key or rejects with an \<open>Error\<close>.
  The request is on its way before any of the events arrives, so the blobs the service
  stored are in the bucket whatever the outcome.
\<close>

definition callD2Service ::
  "env \<Rightarrow> string \<Rightarrow> string \<Rightarrow> string \<Rightarrow> string \<Rightarrow> world \<Rightarrow> (string + string) \<times> world" where
  "callD2Service env text fmt userId did w =
     (let w' = w\<lparr>bucket := bucket w ++ map_of (worker_stores env)\<rparr> in
      (case worker_reply env of
         Response status dat json \<Rightarrow>
           if status = 200 then
             (case json of
                Throws e \<Rightarrow> Inl ''Failed to parse D2 service response''
              | Value response \<Rightarrow>
                  (case response_s3Key response of
                     None \<Rightarrow> Inl ''D2 service returned invalid response''
                   | Some k \<Rightarrow>
                       if success response \<and> k \<noteq> [] then Inr k
                       else Inl ''D2 service returned invalid response''))
           else Inl (''D2 service returned status '' @ decimal status @ '': '' @ dat)
       | RequestError e \<Rightarrow> Inl e
       | Timeout \<Rightarrow> Inl ''D2 service request timed out'',
       w'))"

definition generic_render_error :: string where
  "generic_render_error =
     ''Diagram rendering failed. Please check your D2 syntax and try again.''"

text \<open>
  \<open>renderD2Diagram\<close>. In the outer \<open>catch\<close>, the source has an inner
  \<open>try { ... throw new Error(`D2 Syntax Error:\n${d2Error}`) } catch (parseError) { }\<close>:
  \<open>attempt\<close> is the inner \<open>try\<close> block, \<open>caught\<close> is what is left of it after the inner
  \<open>catch\<close>, whose body is empty.
\<close>

definition renderD2Diagram ::
  "env \<Rightarrow> string \<Rightarrow> string \<Rightarrow> string \<Rightarrow> string \<Rightarrow> world \<Rightarrow> (string + string) \<times> world" where
  "renderD2Diagram env text fmt userId did w =
     (case callD2Service env text fmt userId did w of
        (Inr k, w') \<Rightarrow> (Inr k, w')
      | (Inl errorMessage, w') \<Rightarrow>
          (let attempt =
                 (if str_includes errorMessage ''D2 service returned status 500'' then
                    (case match_message errorMessage of
                       Some m \<Rightarrow>
                         Inl (''D2 Syntax Error:'' @ [newline] @ replace_newlines m)
                     | None \<Rightarrow> Inr ())
                  else Inr ());
               caught = (case attempt of Inl parseError \<Rightarrow> Inr () | Inr u \<Rightarrow> Inr u)
           in (case caught of
                 Inl e \<Rightarrow> (Inl e, w')
               | Inr u \<Rightarrow> (Inl generic_render_error, w'))))"

definition generateSignedUrl :: "env \<Rightarrow> string \<Rightarrow> string + string" where
  "generateSignedUrl env k = presign env k"

definition fetchSvgFromS3 :: "env \<Rightarrow> string \<Rightarrow> world \<Rightarrow> string + string" where
  "fetchSvgFromS3 env k w =
     (case GetObjectCommand env k w of
        Inl e \<Rightarrow> Inl ''Failed to fetch diagram content from S3''
      | Inr content \<Rightarrow> Inr content)"

text \<open>The \<open>catch\<close> block each handler ends with.\<close>

definition failed :: "string \<Rightarrow> string \<Rightarrow> result" where
  "failed what msg = \<lparr>statusCode = 500, body = ErrorMessage what msg\<rparr>"

definition createDiagram :: "env \<Rightarrow> event \<Rightarrow> world \<Rightarrow> result \<times> world" where
  "createDiagram env ev w =
     (case getUserId ev of
        Inl e \<Rightarrow> (failed ''Failed to create diagram'' e, w)
      | Inr userId \<Rightarrow>
          if falsy (requestBody ev) then
            (\<lparr>statusCode = 400, body = Error ''Missing request body''\<rparr>, w)
          else
            (case requestJson ev of
               Throws e \<Rightarrow> (failed ''Failed to create diagram'' e, w)
             | Value b \<Rightarrow>
                 if falsy (d2Text b) \<or> falsy (req_diagramType b) then
                   (\<lparr>statusCode = 400,
                     body = Error ''Missing required fields: d2Text, diagramType''\<rparr>, w)
                 else
                   (let created = clock_iso env;
                        did = decimal (clock_id env) @ ''-'' @ random_suffix env
                    in case renderD2Diagram env (or_default (d2Text b) [])
                              (or_default (format b) ''svg'') userId did w of
                         (Inl e, w1) \<Rightarrow> (failed ''Failed to create diagram'' e, w1)
                       | (Inr k, w1) \<Rightarrow>
                           (let renderDuration = clock_end env - clock_start env;
                                it = \<lparr>PK = ''USER#'' @ userId,
                                      SK = ''DIAGRAM#'' @ created @ ''#'' @ did,
                                      diagramId = did,
                                      diagramType = or_default (req_diagramType b) [],
                                      createdAt = created,
                                      s3Key = k,
                                      metadata =
                                        (case req_metadata b of None \<Rightarrow> [] | Some m \<Rightarrow> m)\<rparr>
                            in case PutCommand env it w1 of
                                 Inl e \<Rightarrow> (failed ''Failed to create diagram'' e, w1)
                               | Inr w2 \<Rightarrow>
                                   (case generateSignedUrl env k of
                                      Inl e \<Rightarrow> (failed ''Failed to create diagram'' e, w2)
                                    | Inr signedUrl \<Rightarrow>
                                        (case fetchSvgFromS3 env k w2 of
                                           Inl e \<Rightarrow>
                                             (failed ''Failed to create diagram'' e, w2)
                                         | Inr svg \<Rightarrow>
                                             (\<lparr>statusCode = 201,
                                               body = Created did
                                                 (or_default (req_diagramType b) [])
                                                 created signedUrl svg renderDuration\<rparr>,
                                              w2)))))))"

text \<open>The body of the \<open>map\<close> in \<open>listDiagrams\<close> and the tail of \<open>getDiagram\<close>.\<close>

definition resolve :: "env \<Rightarrow> world \<Rightarrow> item \<Rightarrow> string + diagram_view" where
  "resolve env w it =
     (case generateSignedUrl env (s3Key it) of
        Inl e \<Rightarrow> Inl e
      | Inr signedUrl \<Rightarrow>
          (case fetchSvgFromS3 env (s3Key it) w of
             Inl e \<Rightarrow> Inl e
           | Inr svg \<Rightarrow>
               Inr \<lparr>view_diagramId = diagramId it,
                    view_diagramType = diagramType it,
                    view_createdAt = createdAt it,
                    s3Url = signedUrl,
                    svgContent = svg,
                    view_metadata = metadata it\<rparr>))"

text \<open>The reasons of the promises that reject and the values of those that are
  fulfilled, both in the order of the inputs.\<close>

fun rejected :: "(string + 'a) list \<Rightarrow> string list" where
  "rejected [] = []"
| "rejected (p # ps) = (case p of Inl e \<Rightarrow> e # rejected ps | Inr v \<Rightarrow> rejected ps)"

fun fulfilled :: "(string + 'a) list \<Rightarrow> 'a list" where
  "fulfilled [] = []"
| "fulfilled (p # ps) = (case p of Inl e \<Rightarrow> fulfilled ps | Inr v \<Rightarrow> v # fulfilled ps)"

text \<open>\<open>Promise.all\<close>: the values in the order of the inputs when every promise is
  fulfilled; otherwise the reason of the promise that rejects first in time, the one
  \<open>first\<close> picks among those that reject.\<close>

definition promise_all :: "nat \<Rightarrow> (string + 'a) list \<Rightarrow> string + 'a list" where
  "promise_all first ps =
     (case rejected ps of
        [] \<Rightarrow> Inr (fulfilled ps)
      | e # es \<Rightarrow> Inl ((e # es) ! (first mod length (e # es))))"

definition listDiagrams :: "env \<Rightarrow> event \<Rightarrow> world \<Rightarrow> result \<times> world" where
  "listDiagrams env ev w =
     (case getUserId ev of
        Inl e \<Rightarrow> (failed ''Failed to list diagrams'' e, w)
      | Inr userId \<Rightarrow>
          (case QueryCommand env (''USER#'' @ userId) None False w of
             Inl e \<Rightarrow> (failed ''Failed to list diagrams'' e, w)
           | Inr items \<Rightarrow>
               (case promise_all (first_rejected env) (map (resolve env w) items) of
                  Inl e \<Rightarrow> (failed ''Failed to list diagrams'' e, w)
                | Inr diagrams \<Rightarrow> (\<lparr>statusCode = 200, body = Diagrams diagrams\<rparr>, w))))"

text \<open>\<open>event.pathParameters?.diagramId\<close>.\<close>

definition pathDiagramId :: "event \<Rightarrow> string option" where
  "pathDiagramId ev =
     (case pathParameters ev of None \<Rightarrow> None | Some ps \<Rightarrow> map_of ps ''diagramId'')"

definition getDiagram :: "env \<Rightarrow> event \<Rightarrow> world \<Rightarrow> result \<times> world" where
  "getDiagram env ev w =
     (case getUserId ev of
        Inl e \<Rightarrow> (failed ''Failed to get diagram'' e, w)
      | Inr userId \<Rightarrow>
          if falsy (pathDiagramId ev) then
            (\<lparr>statusCode = 400, body = Error ''Missing diagramId''\<rparr>, w)
          else
            (case QueryCommand env (''USER#'' @ userId) (pathDiagramId ev) True w of
               Inl e \<Rightarrow> (failed ''Failed to get diagram'' e, w)
             | Inr [] \<Rightarrow> (\<lparr>statusCode = 404, body = Error ''Diagram not found''\<rparr>, w)
             | Inr (it # rest) \<Rightarrow>
                 (case resolve env w it of
                    Inl e \<Rightarrow> (failed ''Failed to get diagram'' e, w)
                  | Inr v \<Rightarrow> (\<lparr>statusCode = 200, body = Diagram v\<rparr>, w))))"

text \<open>
  \<open>deleteDiagram\<close>, with the states of the table and the bucket it goes through, in
  order: the state it starts in, the state after \<open>DeleteObjectCommand\<close>, the state after
  \<open>DeleteCommand\<close>. A call that throws leaves the list where it is.
\<close>

definition deleteDiagram_steps :: "env \<Rightarrow> event \<Rightarrow> world \<Rightarrow> result \<times> world list" where
  "deleteDiagram_steps env ev w =
     (case getUserId ev of
        Inl e \<Rightarrow> (failed ''Failed to delete diagram'' e, [w])
      | Inr userId \<Rightarrow>
          if falsy (pathDiagramId ev) then
            (\<lparr>statusCode = 400, body = Error ''Missing diagramId''\<rparr>, [w])
          else
            (case QueryCommand env (''USER#'' @ userId) (pathDiagramId ev) True w of
               Inl e \<Rightarrow> (failed ''Failed to delete diagram'' e, [w])
             | Inr [] \<Rightarrow> (\<lparr>statusCode = 404, body = Error ''Diagram not found''\<rparr>, [w])
             | Inr (it # rest) \<Rightarrow>
                 (case DeleteObjectCommand env (s3Key it) w of
                    Inl e \<Rightarrow> (failed ''Failed to delete diagram'' e, [w])
                  | Inr w1 \<Rightarrow>
                      (case DeleteCommand env (PK it) (SK it) w1 of
                         Inl e \<Rightarrow> (failed ''Failed to delete diagram'' e, [w, w1])
                       | Inr w2 \<Rightarrow>
                           (\<lparr>statusCode = 200,
                             body = Message ''Diagram deleted successfully''\<rparr>,
                            [w, w1, w2])))))"

definition deleteDiagram :: "env \<Rightarrow> event \<Rightarrow> world \<Rightarrow> result \<times> world" where
  "deleteDiagram env ev w =
     (case deleteDiagram_steps env ev w of (res, ws) \<Rightarrow> (res, last ws))"

text \<open>The Lambda entry point. The handlers catch what they throw, so the outer
  \<open>catch\<close> is never entered.\<close>

definition handler :: "env \<Rightarrow> event \<Rightarrow> world \<Rightarrow> result \<times> world" where
  "handler env ev w =
     (if httpMethod ev = ''POST'' \<and> httpPath ev = ''/diagrams'' then createDiagram env ev w
      else if httpMethod ev = ''GET'' \<and> httpPath ev = ''/diagrams'' then listDiagrams env ev w
      else if httpMethod ev = ''GET'' \<and> startsWith (httpPath ev) ''/diagrams/'' then getDiagram env ev w
      else if httpMethod ev = ''DELETE'' \<and> startsWith (httpPath ev) ''/diagrams/''
        then deleteDiagram env ev w
      else (\<lparr>statusCode = 404, body = Error ''Not found''\<rparr>, w))"

section \<open>Predicates of the specification\<close>

text \<open>
  Modelled from the spec: the rendering service (the container \<open>d2-renderer\<close>, whose
  code is not among the sources) and what it stores. The specification words its contract
  as "render success \<open>\<Rightarrow>\<close> blob exists": when the service answers 200 with \<open>success\<close>
  and a key, the bucket holds a blob under that key once the answer is in.
\<close>

definition render_contract :: "env \<Rightarrow> world \<Rightarrow> bool" where
  "render_contract env w =
     (case worker_reply env of
        Response status dat (Value r) \<Rightarrow>
          (case response_s3Key r of
             Some k \<Rightarrow>
               if status = 200 \<and> success r
               then k \<in> dom (bucket w ++ map_of (worker_stores env))
               else True
           | None \<Rightarrow> True)
      | _ \<Rightarrow> True)"

text \<open>The shape of a row \<open>createDiagram\<close> writes while \<open>toISOString\<close> has its usual
  24 characters (\<open>YYYY-MM-DDTHH:mm:ss.sssZ\<close>, the years 0 to 9999).\<close>

definition written_by_create :: "item \<Rightarrow> bool" where
  "written_by_create r =
     (SK r = ''DIAGRAM#'' @ createdAt r @ ''#'' @ diagramId r \<and> length (createdAt r) = 24)"

text \<open>The rows of one user, and the table without them.\<close>

definition rows_of :: "string \<Rightarrow> world \<Rightarrow> item list" where
  "rows_of userId w = filter (\<lambda>r. PK r = ''USER#'' @ userId) (table w)"

definition without_user :: "string \<Rightarrow> world \<Rightarrow> world" where
  "without_user userId w = w\<lparr>table := filter (\<lambda>r. PK r \<noteq> ''USER#'' @ userId) (table w)\<rparr>"


definition blob_present :: "string \<Rightarrow> world \<Rightarrow> bool" where
  "blob_present k w = (case bucket w k of None \<Rightarrow> False | Some content \<Rightarrow> True)"

text \<open>A claim set without a usable \<open>sub\<close>: no claims at all, no field \<open>sub\<close>, or an
  empty one.\<close>

definition lacks_subject :: "event \<Rightarrow> bool" where
  "lacks_subject ev =
     (case claims ev of None \<Rightarrow> True | Some cl \<Rightarrow> falsy (map_of cl ''sub''))"

section \<open>Scenario inputs\<close>

text \<open>An environment in which nothing fails: the service answers 200 with the key
  \<open>k1\<close>, having stored the rendered SVG under it.\<close>

definition env_ok :: env where
  "env_ok =
     \<lparr>clock_iso = ''2024-05-01T10:00:00.000Z'', clock_id = 1714557600000, random_suffix = ''ab'',
      clock_start = 1714557600000, clock_end = 1714557600030,
      worker_reply = Response 200 ''{}'' (Value \<lparr>success = True, response_s3Key = Some ''k1''\<rparr>),
      worker_stores = [(''k1'', ''<svg/>'')],
      put_fails = None, query_fails = None, delete_fails = None, s3_delete_fails = None,
      presign = (\<lambda>k. Inr (''https://bucket/'' @ k)),
      s3_get_fails = (\<lambda>k. False),
      page_size = 100, first_rejected = 0\<rparr>"

text \<open>The same millisecond, another random suffix, another key.\<close>

definition env_again :: env where
  "env_again =
     env_ok\<lparr>random_suffix := ''cd'',
            worker_reply := Response 200 ''{}'' (Value \<lparr>success = True, response_s3Key = Some ''k2''\<rparr>),
            worker_stores := [(''k2'', ''<svg></svg>'')]\<rparr>"

text \<open>The body \<open>{"message":"unexpected token"}\<close> of a 500 answer.\<close>

definition diagnostic_body :: string where
  "diagnostic_body =
     ''{'' @ [dquote] @ ''message'' @ [dquote] @ '':'' @ [dquote] @ ''unexpected token''
       @ [dquote] @ ''}''"

definition env_syntax_error :: env where
  "env_syntax_error =
     env_ok\<lparr>worker_reply := Response 500 diagnostic_body (Throws []), worker_stores := []\<rparr>"

definition env_timeout :: env where
  "env_timeout = env_ok\<lparr>worker_reply := Timeout, worker_stores := []\<rparr>"

text \<open>An environment whose queries read one item and stop.\<close>

definition env_small_page :: env where
  "env_small_page = env_ok\<lparr>page_size := 1\<rparr>"

definition env_unsigned :: env where
  "env_unsigned = env_ok\<lparr>presign := (\<lambda>k. Inl ''Could not load credentials'')\<rparr>"

text \<open>A Create request of the user \<open>u1\<close> with \<open>d2Text = "x->y"\<close>, \<open>diagramType = "flow"\<close>;
  the same with an empty \<open>d2Text\<close>; the same with no claims.\<close>

definition ev_create :: event where
  "ev_create =
     \<lparr>httpMethod = ''POST'', httpPath = ''/diagrams'', claims = Some [(''sub'', ''u1'')],
      requestBody = Some ''{...}'',
      requestJson = Value \<lparr>d2Text = Some ''x->y'', req_diagramType = Some ''flow'',
                              format = None, req_metadata = None\<rparr>,
      pathParameters = None\<rparr>"

definition ev_empty_text :: event where
  "ev_empty_text =
     ev_create\<lparr>requestJson := Value \<lparr>d2Text = Some [], req_diagramType = Some ''flow'',
                                        format = None, req_metadata = None\<rparr>\<rparr>"

definition ev_anonymous :: event where
  "ev_anonymous = ev_create\<lparr>claims := None\<rparr>"

text \<open>Requests of \<open>u1\<close> and of \<open>u2\<close> for the diagram \<open>1714557600000-ab\<close>, and of \<open>u1\<close> for a diagram
  that does not exist.\<close>

definition ev_diagram :: event where
  "ev_diagram =
     \<lparr>httpMethod = ''GET'', httpPath = ''/diagrams/1714557600000-ab'', claims = Some [(''sub'', ''u1'')],
      requestBody = None, requestJson = Throws [],
      pathParameters = Some [(''diagramId'', ''1714557600000-ab'')]\<rparr>"

definition ev_other_user :: event where
  "ev_other_user = ev_diagram\<lparr>claims := Some [(''sub'', ''u2'')]\<rparr>"

definition ev_unknown :: event where
  "ev_unknown = ev_diagram\<lparr>pathParameters := Some [(''diagramId'', ''nope'')]\<rparr>"

text \<open>The empty state, the state after one Create of \<open>u1\<close>, and after a second one in
  the same millisecond.\<close>

definition w_empty :: world where
  "w_empty = \<lparr>table = [], bucket = Map.empty\<rparr>"

definition w_one :: world where
  "w_one = snd (createDiagram env_ok ev_create w_empty)"

definition w_two :: world where
  "w_two = snd (createDiagram env_again ev_create w_one)"

text \<open>The rows the two Creates write.\<close>

definition row_ab :: item where
  "row_ab =
     \<lparr>PK = ''USER#u1'', SK = ''DIAGRAM#2024-05-01T10:00:00.000Z#1714557600000-ab'',
      diagramId = ''1714557600000-ab'', diagramType = ''flow'',
      createdAt = ''2024-05-01T10:00:00.000Z'', s3Key = ''k1'', metadata = []\<rparr>"

definition row_cd :: item where
  "row_cd =
     \<lparr>PK = ''USER#u1'', SK = ''DIAGRAM#2024-05-01T10:00:00.000Z#1714557600000-cd'',
      diagramId = ''1714557600000-cd'', diagramType = ''flow'',
      createdAt = ''2024-05-01T10:00:00.000Z'', s3Key = ''k2'', metadata = []\<rparr>"

text \<open>What List and Get return for these two rows.\<close>

definition view_ab :: diagram_view where
  "view_ab =
     \<lparr>view_diagramId = ''1714557600000-ab'', view_diagramType = ''flow'',
      view_createdAt = ''2024-05-01T10:00:00.000Z'',
      s3Url = ''https://bucket/k1'', svgContent = ''<svg/>'', view_metadata = []\<rparr>"

definition view_cd :: diagram_view where
  "view_cd =
     \<lparr>view_diagramId = ''1714557600000-cd'', view_diagramType = ''flow'',
      view_createdAt = ''2024-05-01T10:00:00.000Z'',
      s3Url = ''https://bucket/k2'', svgContent = ''<svg></svg>'', view_metadata = []\<rparr>"

text \<open>A row of the user \<open>u2\<close> with the diagram id of \<open>row_ab\<close>, and a state holding both.\<close>

definition row_other :: item where
  "row_other =
     \<lparr>PK = ''USER#u2'', SK = ''DIAGRAM#2024-05-01T10:00:00.000Z#1714557600000-ab'',
      diagramId = ''1714557600000-ab'', diagramType = ''sequence'',
      createdAt = ''2024-05-01T10:00:00.000Z'', s3Key = ''k9'', metadata = []\<rparr>"

definition w_shared :: world where
  "w_shared =
     \<lparr>table = [row_other, row_ab],
      bucket = [''k1'' \<mapsto> ''<svg/>'', ''k9'' \<mapsto> ''<svg>9</svg>'']\<rparr>"

section \<open>Facts about the scenario inputs and the collaborators\<close>

lemmas scenario_defs =
  env_ok_def env_again_def env_syntax_error_def env_timeout_def env_unsigned_def
  env_small_page_def
  diagnostic_body_def ev_create_def ev_empty_text_def ev_anonymous_def ev_diagram_def
  ev_other_user_def ev_unknown_def w_empty_def row_ab_def row_cd_def

lemmas handler_defs =
  getUserId_def unauthorized_def falsy_def or_default_def failed_def
  callD2Service_def renderD2Diagram_def generateSignedUrl_def fetchSvgFromS3_def
  GetObjectCommand_def PutCommand_def QueryCommand_def DeleteCommand_def
  DeleteObjectCommand_def same_key_def pathDiagramId_def promise_all_def

lemmas string_defs =
  decimal.simps digit_def startsWith_def match_here_def dquote_def backslash_def
  newline_def generic_render_error_def

lemma create_ok:
  "createDiagram env_ok ev_create w_empty =
     (\<lparr>statusCode = 201,
       body = Created ''1714557600000-ab'' ''flow'' ''2024-05-01T10:00:00.000Z'' ''https://bucket/k1''
                ''<svg/>'' 30\<rparr>,
      \<lparr>table = [row_ab], bucket = [''k1'' \<mapsto> ''<svg/>'']\<rparr>)"
  by (simp add: createDiagram_def scenario_defs handler_defs string_defs Let_def)

lemma w_one_eq: "w_one = \<lparr>table = [row_ab], bucket = [''k1'' \<mapsto> ''<svg/>'']\<rparr>"
  by (simp add: w_one_def create_ok)

lemma create_again:
  "createDiagram env_again ev_create w_one =
     (\<lparr>statusCode = 201,
       body = Created ''1714557600000-cd'' ''flow'' ''2024-05-01T10:00:00.000Z'' ''https://bucket/k2''
                ''<svg></svg>'' 30\<rparr>,
      \<lparr>table = [row_cd, row_ab],
        bucket = [''k1'' \<mapsto> ''<svg/>'', ''k2'' \<mapsto> ''<svg></svg>'']\<rparr>)"
  by (simp add: w_one_eq createDiagram_def scenario_defs handler_defs string_defs Let_def)

lemma w_two_eq:
  "w_two = \<lparr>table = [row_cd, row_ab],
            bucket = [''k1'' \<mapsto> ''<svg/>'', ''k2'' \<mapsto> ''<svg></svg>'']\<rparr>"
  by (simp add: w_two_def create_again)

lemma callD2Service_world:
  "snd (callD2Service env t f u d w) = w\<lparr>bucket := bucket w ++ map_of (worker_stores env)\<rparr>"
  by (simp add: callD2Service_def Let_def)

text \<open>The model of the service answers from \<open>env\<close>: what is sent does not change the
  outcome.\<close>

lemma callD2Service_args:
  "callD2Service env t f u d w = callD2Service env t' f' u' d' w"
  by (simp add: callD2Service_def)

text \<open>Every rejection of \<open>callD2Service\<close> leaves \<open>renderD2Diagram\<close> as the generic error.\<close>

lemma renderD2Diagram_eq:
  "renderD2Diagram env t f u d w =
     (case fst (callD2Service env t f u d w) of
        Inl e \<Rightarrow> Inl generic_render_error
      | Inr k \<Rightarrow> Inr k,
      w\<lparr>bucket := bucket w ++ map_of (worker_stores env)\<rparr>)"
proof -
  obtain o1 w1 where c: "callD2Service env t f u d w = (o1, w1)"
    by (cases "callD2Service env t f u d w")
  have w1: "w1 = w\<lparr>bucket := bucket w ++ map_of (worker_stores env)\<rparr>"
    using callD2Service_world [of env t f u d w] c by simp
  show ?thesis
    by (cases o1) (simp_all add: renderD2Diagram_def c w1 Let_def split: option.splits)
qed

lemma renderD2Diagram_args:
  "renderD2Diagram env t f u d w = renderD2Diagram env t' f' u' d' w"
  using callD2Service_args [of env t f u d w t' f' u' d']
  by (simp add: renderD2Diagram_eq)

lemma renderD2Diagram_world:
  "snd (renderD2Diagram env t f u d w) = w\<lparr>bucket := bucket w ++ map_of (worker_stores env)\<rparr>"
  by (simp add: renderD2Diagram_eq)

lemma renderD2Diagram_contract:
  assumes "fst (renderD2Diagram env t f u d w) = Inr k" "render_contract env w"
  shows "k \<in> dom (bucket w ++ map_of (worker_stores env))"
  using assms
  by (auto simp: renderD2Diagram_eq callD2Service_def render_contract_def Let_def
      split: http_outcome.splits parsed.splits option.splits if_splits sum.splits)

lemma render_ok:
  "renderD2Diagram env_ok t f u d w_empty =
     (Inr ''k1'', w_empty\<lparr>bucket := [''k1'' \<mapsto> ''<svg/>'']\<rparr>)"
  by (simp add: renderD2Diagram_eq callD2Service_def scenario_defs)

lemma fetchSvgFromS3_bucket:
  "bucket w' = bucket w \<Longrightarrow> fetchSvgFromS3 env k w' = fetchSvgFromS3 env k w"
  by (simp add: fetchSvgFromS3_def GetObjectCommand_def)

text \<open>What a Create does to the state: nothing, or what the rendering service stored,
  or that and one put of the row built from the request.\<close>

lemma createDiagram_effect:
  assumes c: "createDiagram env ev w = (res, w')"
  shows "w' = w \<or> w' = w\<lparr>bucket := bucket w ++ map_of (worker_stores env)\<rparr> \<or>
         (\<exists>userId b k r. getUserId ev = Inr userId \<and> requestJson ev = Value b
           \<and> fst (renderD2Diagram env t f u d w) = Inr k
           \<and> r = \<lparr>PK = ''USER#'' @ userId,
                   SK = ''DIAGRAM#'' @ clock_iso env @ ''#''
                          @ decimal (clock_id env) @ ''-'' @ random_suffix env,
                   diagramId = decimal (clock_id env) @ ''-'' @ random_suffix env,
                   diagramType = or_default (req_diagramType b) [],
                   createdAt = clock_iso env,
                   s3Key = k,
                   metadata = (case req_metadata b of None \<Rightarrow> [] | Some m \<Rightarrow> m)\<rparr>
           \<and> w' = w\<lparr>bucket := bucket w ++ map_of (worker_stores env),
                    table := r # filter (\<lambda>x. \<not> same_key (PK r) (SK r) x) (table w)\<rparr>)"
proof (cases "getUserId ev")
  case (Inl e)
  with c show ?thesis by (auto simp: createDiagram_def)
next
  case (Inr userId)
  note uid = this
  show ?thesis
  proof (cases "requestJson ev")
    case (Throws e)
    with c uid show ?thesis by (auto simp: createDiagram_def split: if_splits)
  next
    case (Value b)
    obtain o1 where r1:
      "renderD2Diagram env t f u d w =
         (o1, w\<lparr>bucket := bucket w ++ map_of (worker_stores env)\<rparr>)"
      by (simp add: renderD2Diagram_eq)
    have r2: "\<And>t' f' u' d'. renderD2Diagram env t' f' u' d' w =
         (o1, w\<lparr>bucket := bucket w ++ map_of (worker_stores env)\<rparr>)"
      using r1 renderD2Diagram_args [of env _ _ _ _ w t f u d] by simp
    show ?thesis
      using c uid Value
      by (cases o1)
         (auto simp: createDiagram_def r2 r1 Let_def PutCommand_def failed_def
           split: if_splits option.splits sum.splits)
  qed
qed

section \<open>Create\<close>

text \<open>
  C1. Create, the rendering service answering 500 with the body
  \<open>{"message":"unexpected token"}\<close>. The regular expression extracts the diagnostic
  \<open>unexpected token\<close>, but the \<open>throw\<close> of the \<open>D2 Syntax Error\<close> sits inside the
  \<open>try\<close> whose \<open>catch\<close> is empty: the response is 500 with the generic message, which does
  not contain the diagnostic. No row is written.
\<close>

theorem C1_diagnostic_not_surfaced:
  "match_message (''D2 service returned status 500: '' @ diagnostic_body)
     = Some ''unexpected token''
   \<and> createDiagram env_syntax_error ev_create w_empty
     = (\<lparr>statusCode = 500,
         body = ErrorMessage ''Failed to create diagram''
                  ''Diagram rendering failed. Please check your D2 syntax and try again.''\<rparr>,
        w_empty)
   \<and> str_includes ''Diagram rendering failed. Please check your D2 syntax and try again.''
        ''unexpected token'' = False"
  by (simp add: createDiagram_def scenario_defs handler_defs string_defs)

text \<open>
  C2. Whatever a Create returns: when the render step fails (\<open>renderD2Diagram\<close> throws,
  for whichever reason), the table is as it was. A row that is in the table afterwards
  and was not there before carries the key the render step returned, so the put came
  after the render; and when the rendering service keeps its contract, the blob of that
  key is in the bucket at the moment of the put (\<open>w1\<close>, the state the render step leaves)
  and when Create returns.
\<close>

theorem C2_render_before_put:
  assumes "createDiagram env ev w = (res, w')"
    and "renderD2Diagram env src fmt userId did w = (outcome, w1)"
  shows "(case outcome of Inl e \<Rightarrow> table w' = table w | Inr k \<Rightarrow> True)
       \<and> (\<forall>r \<in> set (table w'). r \<notin> set (table w) \<longrightarrow>
            outcome = Inr (s3Key r)
            \<and> (render_contract env w \<longrightarrow>
                 blob_present (s3Key r) w1 \<and> blob_present (s3Key r) w'))"
proof -
  have w1: "w1 = w\<lparr>bucket := bucket w ++ map_of (worker_stores env)\<rparr>"
    using assms(2) renderD2Diagram_world [of env src fmt userId did w] by simp
  have out: "fst (renderD2Diagram env src fmt userId did w) = outcome"
    using assms(2) by simp
  consider (same) "table w' = table w"
    | (put) r where "outcome = Inr (s3Key r)"
        "w' = w1\<lparr>table := r # filter (\<lambda>x. \<not> same_key (PK r) (SK r) x) (table w)\<rparr>"
  proof -
    assume a: "table w' = table w \<Longrightarrow> thesis"
      and b: "\<And>r. outcome = Inr (s3Key r) \<Longrightarrow>
        w' = w1\<lparr>table := r # filter (\<lambda>x. \<not> same_key (PK r) (SK r) x) (table w)\<rparr>
        \<Longrightarrow> thesis"
    from createDiagram_effect [OF assms(1), of src fmt userId did]
    show thesis
    proof (elim disjE exE conjE)
      assume "w' = w"
      then show thesis using a by simp
    next
      assume "w' = w\<lparr>bucket := bucket w ++ map_of (worker_stores env)\<rparr>"
      then show thesis using a by simp
    next
      fix u b k r
      assume k: "fst (renderD2Diagram env src fmt userId did w) = Inr k"
        and r: "r = \<lparr>PK = ''USER#'' @ u,
                   SK = ''DIAGRAM#'' @ clock_iso env @ ''#''
                          @ decimal (clock_id env) @ ''-'' @ random_suffix env,
                   diagramId = decimal (clock_id env) @ ''-'' @ random_suffix env,
                   diagramType = or_default (req_diagramType b) [],
                   createdAt = clock_iso env,
                   s3Key = k,
                   metadata = (case req_metadata b of None \<Rightarrow> [] | Some m \<Rightarrow> m)\<rparr>"
        and w': "w' = w\<lparr>bucket := bucket w ++ map_of (worker_stores env),
                    table := r # filter (\<lambda>x. \<not> same_key (PK r) (SK r) x) (table w)\<rparr>"
      have "s3Key r = k" using r by simp
      then have "outcome = Inr (s3Key r)" using k out by simp
      moreover have
        "w' = w1\<lparr>table := r # filter (\<lambda>x. \<not> same_key (PK r) (SK r) x) (table w)\<rparr>"
        using w' w1 by simp
      ultimately show thesis by (rule b)
    qed
  qed
  then show ?thesis
  proof cases
    case same
    then show ?thesis by (simp split: sum.splits)
  next
    case put
    have new: "\<And>x. x \<in> set (table w') \<Longrightarrow> x \<notin> set (table w) \<Longrightarrow> x = r"
      using put(2) by auto
    have blob: "render_contract env w \<Longrightarrow>
        blob_present (s3Key r) w1 \<and> blob_present (s3Key r) w'"
      using renderD2Diagram_contract [of env src fmt userId did w "s3Key r"] out put w1
      by (auto simp: blob_present_def split: option.splits)
    show ?thesis
      using put(1) new blob by auto
  qed
qed

text \<open>The first Create of the scenario writes \<open>row_ab\<close> after the render returned \<open>k1\<close>,
  whose blob is there; a Create whose render times out leaves the table alone.\<close>

theorem C2_witness:
  "createDiagram env_ok ev_create w_empty =
     (\<lparr>statusCode = 201,
       body = Created ''1714557600000-ab'' ''flow'' ''2024-05-01T10:00:00.000Z'' ''https://bucket/k1''
                ''<svg/>'' 30\<rparr>, w_one)
   \<and> renderD2Diagram env_ok ''x->y'' ''svg'' ''u1'' ''1714557600000-ab'' w_empty
       = (Inr ''k1'', w_empty\<lparr>bucket := [''k1'' \<mapsto> ''<svg/>'']\<rparr>)
   \<and> render_contract env_ok w_empty
   \<and> table w_one = [row_ab] \<and> table w_empty = []
   \<and> s3Key row_ab = ''k1'' \<and> blob_present ''k1'' w_one
   \<and> renderD2Diagram env_timeout ''x->y'' ''svg'' ''u1'' ''1714557600000-ab'' w_one
       = (Inl generic_render_error, w_one)
   \<and> table (snd (createDiagram env_timeout ev_create w_one)) = table w_one"
proof -
  have c: "createDiagram env_ok ev_create w_empty =
     (\<lparr>statusCode = 201,
       body = Created ''1714557600000-ab'' ''flow'' ''2024-05-01T10:00:00.000Z'' ''https://bucket/k1''
                ''<svg/>'' 30\<rparr>, w_one)"
    by (simp add: create_ok w_one_eq)
  have r: "renderD2Diagram env_ok ''x->y'' ''svg'' ''u1'' ''1714557600000-ab'' w_empty
             = (Inr ''k1'', w_empty\<lparr>bucket := [''k1'' \<mapsto> ''<svg/>'']\<rparr>)"
    by (rule render_ok)
  have k: "render_contract env_ok w_empty"
    by (simp add: render_contract_def scenario_defs)
  have t: "table w_one = [row_ab]" "table w_empty = []" "s3Key row_ab = ''k1''"
    by (simp_all add: w_one_eq w_empty_def row_ab_def)
  have b: "blob_present ''k1'' w_one"
    using C2_render_before_put [OF c r] k t by simp
  obtain res' w' where c': "createDiagram env_timeout ev_create w_one = (res', w')"
    by (cases "createDiagram env_timeout ev_create w_one")
  have r': "renderD2Diagram env_timeout ''x->y'' ''svg'' ''u1'' ''1714557600000-ab'' w_one
              = (Inl generic_render_error, w_one)"
    by (simp add: renderD2Diagram_eq callD2Service_def env_timeout_def env_ok_def)
  have "table w' = table w_one"
    using C2_render_before_put [OF c' r'] by simp
  then have n: "table (snd (createDiagram env_timeout ev_create w_one)) = table w_one"
    by (simp add: c')
  show ?thesis
    using c r k t b r' n by simp
qed

text \<open>
  C4, as the specification states it, fails: the partition key of the row the first
  Create of the scenario writes for the user \<open>u1\<close> is \<open>USER#u1\<close>, not \<open>OWNER#u1\<close>.
\<close>

theorem C4_counterexample:
  "getUserId ev_create = Inr ''u1''
   \<and> table (snd (createDiagram env_ok ev_create w_empty)) = [row_ab]
   \<and> PK row_ab = ''USER#u1''
   \<and> PK row_ab \<noteq> ''OWNER#'' @ ''u1''"
  by (simp add: create_ok) (simp add: scenario_defs getUserId_def)

text \<open>
  C4, amended. Every row a Create adds to the table has the partition key \<open>USER#\<close>
  followed by the caller's id, and the sort key \<open>DIAGRAM#\<close>, the row's \<open>createdAt\<close>,
  \<open>#\<close>, the row's \<open>diagramId\<close>; \<open>createdAt\<close> is the clock's ISO string and \<open>diagramId\<close>
  the clock's milliseconds, \<open>-\<close>, the random suffix.
\<close>

theorem C4_row_keys:
  assumes "createDiagram env ev w = (res, w')"
    and "getUserId ev = Inr userId"
    and "r \<in> set (table w')" and "r \<notin> set (table w)"
  shows "PK r = ''USER#'' @ userId
       \<and> SK r = ''DIAGRAM#'' @ createdAt r @ ''#'' @ diagramId r
       \<and> createdAt r = clock_iso env
       \<and> diagramId r = decimal (clock_id env) @ ''-'' @ random_suffix env"
  using createDiagram_effect [OF assms(1), of "[]" "[]" "[]" "[]"] assms(2-4)
  by (elim disjE exE conjE) auto

theorem C4_witness:
  "createDiagram env_ok ev_create w_empty =
     (\<lparr>statusCode = 201,
       body = Created ''1714557600000-ab'' ''flow'' ''2024-05-01T10:00:00.000Z'' ''https://bucket/k1''
                ''<svg/>'' 30\<rparr>, w_one)
   \<and> getUserId ev_create = Inr ''u1''
   \<and> row_ab \<in> set (table w_one) \<and> row_ab \<notin> set (table w_empty)
   \<and> PK row_ab = ''USER#'' @ ''u1''
   \<and> SK row_ab = ''DIAGRAM#'' @ ''2024-05-01T10:00:00.000Z'' @ ''#'' @ ''1714557600000-ab''"
proof -
  have c: "createDiagram env_ok ev_create w_empty =
     (\<lparr>statusCode = 201,
       body = Created ''1714557600000-ab'' ''flow'' ''2024-05-01T10:00:00.000Z'' ''https://bucket/k1''
                ''<svg/>'' 30\<rparr>, w_one)"
    by (simp add: create_ok w_one_eq)
  have u: "getUserId ev_create = Inr ''u1''"
    by (simp add: getUserId_def ev_create_def)
  have m: "row_ab \<in> set (table w_one)" "row_ab \<notin> set (table w_empty)"
    by (simp_all add: w_one_eq w_empty_def)
  have f: "createdAt row_ab = ''2024-05-01T10:00:00.000Z''" "diagramId row_ab = ''1714557600000-ab''"
    by (simp_all add: row_ab_def)
  show ?thesis
    using C4_row_keys [OF c u m] c u m f by simp
qed

text \<open>
  C5. A Create request of a resolved caller whose body parses to an object with an empty
  or missing \<open>d2Text\<close>, or an empty or missing \<open>diagramType\<close>: the response is 400 and
  the state is the one before. The equation holds for every \<open>env\<close>, whatever the
  rendering service and the table would have answered: neither is called.
\<close>

theorem C5_missing_fields:
  assumes "getUserId ev = Inr userId"
    and "\<not> falsy (requestBody ev)" and "requestJson ev = Value b"
    and "falsy (d2Text b) \<or> falsy (req_diagramType b)"
  shows "createDiagram env ev w =
           (\<lparr>statusCode = 400,
             body = Error ''Missing required fields: d2Text, diagramType''\<rparr>, w)"
  using assms by (simp add: createDiagram_def)

theorem C5_witness:
  "getUserId ev_empty_text = Inr ''u1''
   \<and> falsy (requestBody ev_empty_text) = False
   \<and> requestJson ev_empty_text
       = Value \<lparr>d2Text = Some [], req_diagramType = Some ''flow'',
                 format = None, req_metadata = None\<rparr>
   \<and> falsy (Some [])
   \<and> createDiagram env_ok ev_empty_text w_one =
       (\<lparr>statusCode = 400,
         body = Error ''Missing required fields: d2Text, diagramType''\<rparr>, w_one)"
proof -
  have u: "getUserId ev_empty_text = Inr ''u1''"
    by (simp add: getUserId_def ev_empty_text_def ev_create_def)
  have b: "\<not> falsy (requestBody ev_empty_text)"
    by (simp add: falsy_def ev_empty_text_def ev_create_def)
  have j: "requestJson ev_empty_text
       = Value \<lparr>d2Text = Some [], req_diagramType = Some ''flow'',
                 format = None, req_metadata = None\<rparr>"
    by (simp add: ev_empty_text_def)
  have e: "falsy (d2Text \<lparr>d2Text = Some [], req_diagramType = Some ''flow'',
                 format = None, req_metadata = None\<rparr>)
           \<or> falsy (req_diagramType \<lparr>d2Text = Some [], req_diagramType = Some ''flow'',
                 format = None, req_metadata = None\<rparr>)"
    by (simp add: falsy_def)
  show ?thesis
    using C5_missing_fields [OF u b j e, of env_ok w_one] u b j
    by (simp add: falsy_def)
qed

text \<open>
  C10. A Create whose request is valid, whose render returns a key and whose put
  succeeds, but where signing the URL or fetching the content fails: the response is
  500, the new row is in the table, and the bucket is as the render step left it.
\<close>

theorem C10_late_failure_keeps_row:
  assumes "getUserId ev = Inr userId"
    and "\<not> falsy (requestBody ev)" and "requestJson ev = Value b"
    and "\<not> falsy (d2Text b)" and "\<not> falsy (req_diagramType b)"
    and "renderD2Diagram env src fmt userId did w = (Inr k, w1)"
    and "put_fails env = None"
    and "(\<exists>e. generateSignedUrl env k = Inl e) \<or> (\<exists>e. fetchSvgFromS3 env k w1 = Inl e)"
    and "createDiagram env ev w = (res, w')"
  shows "statusCode res = 500
       \<and> (\<exists>r \<in> set (table w'). PK r = ''USER#'' @ userId \<and> s3Key r = k
             \<and> diagramId r = decimal (clock_id env) @ ''-'' @ random_suffix env)
       \<and> bucket w' = bucket w1"
proof -
  have r: "\<And>t f u d. renderD2Diagram env t f u d w = (Inr k, w1)"
    using assms(6) renderD2Diagram_args [of env _ _ _ _ w src fmt userId did] by simp
  have f: "fetchSvgFromS3 env k (w1\<lparr>table := t\<rparr>) = fetchSvgFromS3 env k w1" for t
    by (rule fetchSvgFromS3_bucket) simp
  show ?thesis
    using assms(1-5,7-9)
    by (auto simp: createDiagram_def r f Let_def PutCommand_def failed_def split: sum.splits)
qed

theorem C10_witness:
  "getUserId ev_create = Inr ''u1''
   \<and> renderD2Diagram env_unsigned ''x->y'' ''svg'' ''u1'' ''1714557600000-ab'' w_empty
       = (Inr ''k1'', w_empty\<lparr>bucket := [''k1'' \<mapsto> ''<svg/>'']\<rparr>)
   \<and> generateSignedUrl env_unsigned ''k1'' = Inl ''Could not load credentials''
   \<and> createDiagram env_unsigned ev_create w_empty =
       (\<lparr>statusCode = 500,
         body = ErrorMessage ''Failed to create diagram'' ''Could not load credentials''\<rparr>,
        w_one)
   \<and> table w_one = [row_ab] \<and> blob_present ''k1'' w_one"
proof -
  have u: "getUserId ev_create = Inr ''u1''"
    by (simp add: getUserId_def ev_create_def)
  have b: "\<not> falsy (requestBody ev_create)"
    by (simp add: falsy_def ev_create_def)
  have j: "requestJson ev_create
       = Value \<lparr>d2Text = Some ''x->y'', req_diagramType = Some ''flow'',
                 format = None, req_metadata = None\<rparr>"
    by (simp add: ev_create_def)
  have v: "\<not> falsy (d2Text \<lparr>d2Text = Some ''x->y'', req_diagramType = Some ''flow'',
                 format = None, req_metadata = None\<rparr>)"
    "\<not> falsy (req_diagramType \<lparr>d2Text = Some ''x->y'', req_diagramType = Some ''flow'',
                 format = None, req_metadata = None\<rparr>)"
    by (simp_all add: falsy_def)
  have r: "renderD2Diagram env_unsigned ''x->y'' ''svg'' ''u1'' ''1714557600000-ab'' w_empty
             = (Inr ''k1'', w_empty\<lparr>bucket := [''k1'' \<mapsto> ''<svg/>'']\<rparr>)"
    by (simp add: renderD2Diagram_eq callD2Service_def scenario_defs)
  have p: "put_fails env_unsigned = None"
    by (simp add: env_unsigned_def env_ok_def)
  have s: "generateSignedUrl env_unsigned ''k1'' = Inl ''Could not load credentials''"
    by (simp add: generateSignedUrl_def env_unsigned_def)
  then have s': "(\<exists>e. generateSignedUrl env_unsigned ''k1'' = Inl e)
      \<or> (\<exists>e. fetchSvgFromS3 env_unsigned ''k1''
                 (w_empty\<lparr>bucket := [''k1'' \<mapsto> ''<svg/>'']\<rparr>) = Inl e)"
    by simp
  have c: "createDiagram env_unsigned ev_create w_empty =
       (\<lparr>statusCode = 500,
         body = ErrorMessage ''Failed to create diagram'' ''Could not load credentials''\<rparr>,
        w_one)"
    by (simp add: w_one_eq createDiagram_def scenario_defs handler_defs string_defs Let_def)
  have t: "table w_one = [row_ab]" "blob_present ''k1'' w_one"
    by (simp_all add: w_one_eq blob_present_def)
  show ?thesis
    using C10_late_failure_keeps_row [OF u b j v r p s' c] u r s c t by simp
qed

section \<open>Identity\<close>

lemma getUserId_lacks_subject: "lacks_subject ev \<Longrightarrow> getUserId ev = Inl unauthorized"
  by (auto simp: lacks_subject_def getUserId_def falsy_def split: option.splits)

text \<open>
  C3, as the specification states it, fails: for a request without claims, each of the
  four handlers answers 500, not 401.
\<close>

theorem C3_counterexample:
  "lacks_subject ev_anonymous
   \<and> statusCode (fst (createDiagram env_ok ev_anonymous w_one)) = 500
   \<and> statusCode (fst (listDiagrams env_ok ev_anonymous w_one)) = 500
   \<and> statusCode (fst (getDiagram env_ok ev_anonymous w_one)) = 500
   \<and> statusCode (fst (deleteDiagram env_ok ev_anonymous w_one)) = 500
   \<and> (500 :: nat) \<noteq> 401"
  by (simp add: lacks_subject_def createDiagram_def listDiagrams_def getDiagram_def
      deleteDiagram_def deleteDiagram_steps_def ev_anonymous_def ev_create_def
      getUserId_def failed_def)

text \<open>
  C3, amended. For a request whose claims lack a usable \<open>sub\<close>, \<open>getUserId\<close> throws
  \<open>Unauthorized: No valid user identity found\<close>, and the \<open>catch\<close> of each of the four
  handlers turns it into a 500 response carrying that message; the state is the one
  before.
\<close>

theorem C3_unauthorized_is_500:
  assumes "lacks_subject ev"
  shows "createDiagram env ev w =
           (\<lparr>statusCode = 500, body = ErrorMessage ''Failed to create diagram''
               ''Unauthorized: No valid user identity found''\<rparr>, w)
       \<and> listDiagrams env ev w =
           (\<lparr>statusCode = 500, body = ErrorMessage ''Failed to list diagrams''
               ''Unauthorized: No valid user identity found''\<rparr>, w)
       \<and> getDiagram env ev w =
           (\<lparr>statusCode = 500, body = ErrorMessage ''Failed to get diagram''
               ''Unauthorized: No valid user identity found''\<rparr>, w)
       \<and> deleteDiagram env ev w =
           (\<lparr>statusCode = 500, body = ErrorMessage ''Failed to delete diagram''
               ''Unauthorized: No valid user identity found''\<rparr>, w)"
  using getUserId_lacks_subject [OF assms]
  by (simp add: createDiagram_def listDiagrams_def getDiagram_def deleteDiagram_def
      deleteDiagram_steps_def failed_def unauthorized_def)

theorem C3_witness:
  "lacks_subject ev_anonymous
   \<and> handler env_ok ev_anonymous w_one =
       (\<lparr>statusCode = 500, body = ErrorMessage ''Failed to create diagram''
               ''Unauthorized: No valid user identity found''\<rparr>, w_one)"
proof -
  have l: "lacks_subject ev_anonymous"
    by (simp add: lacks_subject_def ev_anonymous_def)
  have h: "handler env_ok ev_anonymous w_one = createDiagram env_ok ev_anonymous w_one"
    by (simp add: handler_def ev_anonymous_def ev_create_def)
  show ?thesis
    using C3_unauthorized_is_500 [OF l, of env_ok w_one] l h by simp
qed

section \<open>Get and Delete\<close>

text \<open>What a query returns is read from the partition asked for, and passes the
  filter.\<close>

lemma QueryCommand_rows:
  assumes "QueryCommand env pk flt fwd w = Inr items"
  shows "set items \<subseteq> set (table w) \<and> (\<forall>r \<in> set items. PK r = pk)"
proof -
  define ordered where "ordered =
    (if fwd then sort_key SK (filter (\<lambda>r. PK r = pk) (table w))
     else rev (sort_key SK (filter (\<lambda>r. PK r = pk) (table w))))"
  have o: "set ordered = {r \<in> set (table w). PK r = pk}"
    by (auto simp: ordered_def)
  have t: "set (take (page_size env) ordered) \<subseteq> set ordered"
    by (rule set_take_subset)
  have "items = (case flt of
                   None \<Rightarrow> take (page_size env) ordered
                 | Some d \<Rightarrow> filter (\<lambda>r. diagramId r = d) (take (page_size env) ordered))"
    using assms by (auto simp: QueryCommand_def ordered_def Let_def split: option.splits)
  then have "set items \<subseteq> set (take (page_size env) ordered)"
    by (auto split: option.splits)
  with t o show ?thesis by auto
qed

lemma QueryCommand_filtered:
  assumes "QueryCommand env pk (Some d) fwd w = Inr items"
  shows "\<forall>r \<in> set items. diagramId r = d"
  using assms by (auto simp: QueryCommand_def Let_def split: option.splits)

lemma QueryCommand_absent:
  assumes "query_fails env = None"
    and "\<forall>r \<in> set (table w). \<not> (PK r = pk \<and> diagramId r = d)"
  shows "QueryCommand env pk (Some d) fwd w = Inr []"
proof -
  obtain items where q: "QueryCommand env pk (Some d) fwd w = Inr items"
    using assms(1) by (simp add: QueryCommand_def Let_def)
  have "r \<notin> set items" for r
    using QueryCommand_rows [OF q] QueryCommand_filtered [OF q] assms(2) by auto
  then have "items = []"
    by (cases items) auto
  with q show ?thesis by simp
qed


text \<open>
  C8. A caller, a diagram id, and a table with no row of that caller under that id;
  the queries themselves do not fail. Get answers 404 and Delete answers 404, the state
  is the one before, and so a second call (in whatever environment \<open>env'\<close>) answers 404
  again.
\<close>

theorem C8_absent_not_found:
  assumes "getUserId ev = Inr userId"
    and "pathDiagramId ev = Some d" and "d \<noteq> []"
    and "\<forall>r \<in> set (table w). \<not> (PK r = ''USER#'' @ userId \<and> diagramId r = d)"
    and "query_fails env = None" and "query_fails env' = None"
  shows "getDiagram env ev w = (\<lparr>statusCode = 404, body = Error ''Diagram not found''\<rparr>, w)
       \<and> deleteDiagram env ev w
           = (\<lparr>statusCode = 404, body = Error ''Diagram not found''\<rparr>, w)
       \<and> getDiagram env' ev (snd (getDiagram env ev w))
           = (\<lparr>statusCode = 404, body = Error ''Diagram not found''\<rparr>, w)
       \<and> deleteDiagram env' ev (snd (deleteDiagram env ev w))
           = (\<lparr>statusCode = 404, body = Error ''Diagram not found''\<rparr>, w)"
proof -
  have q: "QueryCommand env (''USER#'' @ userId) (Some d) True w = Inr []"
    using QueryCommand_absent [OF assms(5) assms(4)] .
  have q': "QueryCommand env' (''USER#'' @ userId) (Some d) True w = Inr []"
    using QueryCommand_absent [OF assms(6) assms(4)] .
  have g: "getDiagram e ev w = (\<lparr>statusCode = 404, body = Error ''Diagram not found''\<rparr>, w)"
    if "QueryCommand e (''USER#'' @ userId) (Some d) True w = Inr []" for e
    using that assms(1-3) by (simp add: getDiagram_def falsy_def)
  have dl: "deleteDiagram e ev w
      = (\<lparr>statusCode = 404, body = Error ''Diagram not found''\<rparr>, w)"
    if "QueryCommand e (''USER#'' @ userId) (Some d) True w = Inr []" for e
    using that assms(1-3) by (simp add: deleteDiagram_def deleteDiagram_steps_def falsy_def)
  show ?thesis
    by (simp add: g [OF q] g [OF q'] dl [OF q] dl [OF q'])
qed

theorem C8_witness:
  "getUserId ev_unknown = Inr ''u1'' \<and> pathDiagramId ev_unknown = Some ''nope''
   \<and> list_all (\<lambda>r. diagramId r \<noteq> ''nope'') (table w_two)
   \<and> getDiagram env_ok ev_unknown w_two
       = (\<lparr>statusCode = 404, body = Error ''Diagram not found''\<rparr>, w_two)
   \<and> deleteDiagram env_ok ev_unknown w_two
       = (\<lparr>statusCode = 404, body = Error ''Diagram not found''\<rparr>, w_two)
   \<and> deleteDiagram env_again ev_unknown (snd (deleteDiagram env_ok ev_unknown w_two))
       = (\<lparr>statusCode = 404, body = Error ''Diagram not found''\<rparr>, w_two)"
proof -
  have u: "getUserId ev_unknown = Inr ''u1''"
    by (simp add: scenario_defs getUserId_def)
  have d: "pathDiagramId ev_unknown = Some ''nope''" "''nope'' \<noteq> []"
    by (simp_all add: scenario_defs pathDiagramId_def)
  have t: "list_all (\<lambda>r. diagramId r \<noteq> ''nope'') (table w_two)"
    by (simp add: w_two_eq row_ab_def row_cd_def)
  then have a:
    "\<forall>r \<in> set (table w_two). \<not> (PK r = ''USER#'' @ ''u1'' \<and> diagramId r = ''nope'')"
    by (simp add: list_all_iff)
  have q: "query_fails env_ok = None" "query_fails env_again = None"
    by (simp_all add: scenario_defs)
  show ?thesis
    using C8_absent_not_found [OF u d a q] u d(1) t by blast
qed



section \<open>Isolation of the users\<close>

lemma QueryCommand_without_user:
  assumes "a \<noteq> b"
  shows "QueryCommand env (''USER#'' @ b) flt fwd (without_user a w)
       = QueryCommand env (''USER#'' @ b) flt fwd w"
proof -
  have "(PK x \<noteq> ''USER#'' @ a \<and> PK x = ''USER#'' @ b) = (PK x = ''USER#'' @ b)" for x :: item
    using assms by auto
  then have "filter (\<lambda>r. PK r = ''USER#'' @ b) (table (without_user a w))
           = filter (\<lambda>r. PK r = ''USER#'' @ b) (table w)"
    by (simp add: without_user_def)
  then show ?thesis
    by (simp add: QueryCommand_def split: option.splits)
qed

lemma resolve_bucket: "bucket w' = bucket w \<Longrightarrow> resolve env w' it = resolve env w it"
  using fetchSvgFromS3_bucket [of w' w env "s3Key it"]
  by (simp add: resolve_def split: sum.splits)

lemma rows_of_other_kept:
  assumes "a \<noteq> b" "PK it = ''USER#'' @ b"
  shows "rows_of a (w\<lparr>bucket := bk, table := filter (\<lambda>r. \<not> same_key (PK it) (SK it) r) (table w)\<rparr>)
       = rows_of a w"
proof -
  have "(\<not> same_key (PK it) (SK it) x \<and> PK x = ''USER#'' @ a) = (PK x = ''USER#'' @ a)" for x :: item
    using assms by (auto simp: same_key_def)
  then show ?thesis
    by (simp add: rows_of_def)
qed

text \<open>
  C9. Two different users \<open>a\<close> and \<open>b\<close>, a request with the identity of \<open>b\<close>, any state.
  What List, Get and Delete answer is what they answer in the state without the rows of
  \<open>a\<close>: no row of \<open>a\<close> contributes to a response to \<open>b\<close>, whatever its diagram id. The
  rows of \<open>a\<close> are the same after each of the three operations, so a Delete of \<open>b\<close> does
  not remove one. And every query the handlers make with the key of \<open>b\<close> returns rows
  of the partition of \<open>b\<close> only.
\<close>

theorem C9_owner_isolation:
  assumes "a \<noteq> b" and "getUserId ev = Inr b"
  shows "fst (listDiagrams env ev (without_user a w)) = fst (listDiagrams env ev w)
       \<and> fst (getDiagram env ev (without_user a w)) = fst (getDiagram env ev w)
       \<and> fst (deleteDiagram env ev (without_user a w)) = fst (deleteDiagram env ev w)
       \<and> rows_of a (snd (listDiagrams env ev w)) = rows_of a w
       \<and> rows_of a (snd (getDiagram env ev w)) = rows_of a w
       \<and> rows_of a (snd (deleteDiagram env ev w)) = rows_of a w
       \<and> (\<forall>flt fwd items. QueryCommand env (''USER#'' @ b) flt fwd w = Inr items \<longrightarrow>
             set items \<inter> set (rows_of a w) = {})"
proof -
  have q: "QueryCommand env (''USER#'' @ b) flt fwd (without_user a w)
       = QueryCommand env (''USER#'' @ b) flt fwd w" for flt fwd
    by (rule QueryCommand_without_user [OF assms(1)])
  have r: "resolve env (without_user a w) = resolve env w"
    by (rule ext) (rule resolve_bucket, simp add: without_user_def)
  have l: "fst (listDiagrams env ev (without_user a w)) = fst (listDiagrams env ev w)"
    using assms(2) by (simp add: listDiagrams_def q [simplified] r split: sum.splits)
  have g: "fst (getDiagram env ev (without_user a w)) = fst (getDiagram env ev w)"
    using assms(2) by (simp add: getDiagram_def q [simplified] r split: sum.splits list.splits)
  have d: "fst (deleteDiagram env ev (without_user a w)) = fst (deleteDiagram env ev w)"
    using assms(2)
    by (simp add: deleteDiagram_def deleteDiagram_steps_def q [simplified]
        DeleteObjectCommand_def DeleteCommand_def
        split: sum.splits list.splits option.splits)
  have l': "snd (listDiagrams env ev w) = w"
    by (simp add: listDiagrams_def split: sum.splits)
  have g': "snd (getDiagram env ev w) = w"
    by (simp add: getDiagram_def split: sum.splits list.splits)
  have d': "rows_of a (snd (deleteDiagram env ev w)) = rows_of a w"
  proof (cases "QueryCommand env (''USER#'' @ b) (pathDiagramId ev) True w")
    case (Inl e)
    then show ?thesis
      using assms(2) by (simp add: deleteDiagram_def deleteDiagram_steps_def)
  next
    case (Inr items)
    show ?thesis
    proof (cases items)
      case Nil
      then show ?thesis
        using assms(2) Inr by (simp add: deleteDiagram_def deleteDiagram_steps_def)
    next
      case (Cons it rest)
      then have pk: "PK it = ''USER#'' @ b"
        using QueryCommand_rows [OF Inr] by simp
      have k: "rows_of a (w\<lparr>bucket := bk\<rparr>) = rows_of a w" for bk
        by (simp add: rows_of_def)
      have kept: "rows_of a (w\<lparr>bucket := bk,
          table := filter (\<lambda>r. \<not> same_key (PK it) (SK it) r) (table w)\<rparr>) = rows_of a w" for bk
        by (rule rows_of_other_kept [OF assms(1) pk])
      show ?thesis
        using assms(2) Inr Cons
        by (simp add: deleteDiagram_def deleteDiagram_steps_def DeleteObjectCommand_def
            DeleteCommand_def kept k split: option.splits)
    qed
  qed
  have disj: "set items \<inter> set (rows_of a w) = {}"
    if "QueryCommand env (''USER#'' @ b) flt fwd w = Inr items" for flt fwd items
    using QueryCommand_rows [OF that] assms(1) by (auto simp: rows_of_def)
  show ?thesis
    using l g d d' disj by (simp add: l' g')
qed

text \<open>The user \<open>u2\<close> asks for, and then deletes, the diagram \<open>1714557600000-ab\<close>, an id that a row
  of \<open>u1\<close> has as well: \<open>u2\<close> gets its own diagram (the blob \<open>k9\<close>), and the row of \<open>u1\<close>
  is still there after the Delete.\<close>

theorem C9_witness:
  "''u1'' \<noteq> ''u2'' \<and> getUserId ev_other_user = Inr ''u2''
   \<and> diagramId row_other = diagramId row_ab
   \<and> rows_of ''u1'' w_shared = [row_ab]
   \<and> table (without_user ''u1'' w_shared) = [row_other]
   \<and> fst (getDiagram env_ok ev_other_user w_shared) =
       \<lparr>statusCode = 200,
         body = Diagram
           \<lparr>view_diagramId = ''1714557600000-ab'', view_diagramType = ''sequence'',
             view_createdAt = ''2024-05-01T10:00:00.000Z'',
             s3Url = ''https://bucket/k9'', svgContent = ''<svg>9</svg>'',
             view_metadata = []\<rparr>\<rparr>
   \<and> fst (getDiagram env_ok ev_other_user (without_user ''u1'' w_shared))
       = fst (getDiagram env_ok ev_other_user w_shared)
   \<and> fst (listDiagrams env_ok ev_other_user (without_user ''u1'' w_shared))
       = fst (listDiagrams env_ok ev_other_user w_shared)
   \<and> fst (deleteDiagram env_ok ev_other_user w_shared) =
       \<lparr>statusCode = 200, body = Message ''Diagram deleted successfully''\<rparr>
   \<and> rows_of ''u1'' (snd (deleteDiagram env_ok ev_other_user w_shared)) = [row_ab]"
proof -
  have n: "''u1'' \<noteq> ''u2''"
    by simp
  have u: "getUserId ev_other_user = Inr ''u2''"
    by (simp add: getUserId_def ev_other_user_def)
  have i: "diagramId row_other = diagramId row_ab"
    by (simp add: row_other_def row_ab_def)
  have r: "rows_of ''u1'' w_shared = [row_ab]"
    "table (without_user ''u1'' w_shared) = [row_other]"
    by (simp_all add: rows_of_def without_user_def w_shared_def row_other_def row_ab_def)
  have g: "fst (getDiagram env_ok ev_other_user w_shared) =
       \<lparr>statusCode = 200,
         body = Diagram
           \<lparr>view_diagramId = ''1714557600000-ab'', view_diagramType = ''sequence'',
             view_createdAt = ''2024-05-01T10:00:00.000Z'',
             s3Url = ''https://bucket/k9'', svgContent = ''<svg>9</svg>'',
             view_metadata = []\<rparr>\<rparr>"
    by (simp add: getDiagram_def resolve_def handler_defs scenario_defs w_shared_def
        row_other_def)
  have d: "fst (deleteDiagram env_ok ev_other_user w_shared) =
       \<lparr>statusCode = 200, body = Message ''Diagram deleted successfully''\<rparr>"
    by (simp add: deleteDiagram_def deleteDiagram_steps_def handler_defs scenario_defs
        w_shared_def row_other_def)
  show ?thesis
    using C9_owner_isolation [OF n u, of env_ok w_shared] n u i r g d by simp
qed

section \<open>List\<close>

lemma lex_prefix_le:
  fixes a b :: "'a :: linorder list"
  shows "length a = length b \<Longrightarrow> a @ x \<le> b @ y \<Longrightarrow> a \<le> b"
proof (induction a arbitrary: b)
  case Nil
  then show ?case by simp
next
  case (Cons c a)
  then obtain c' b' where b: "b = c' # b'" by (cases b) auto
  with Cons show ?case by auto
qed

lemma written_by_create_mono:
  assumes "written_by_create r" "written_by_create r'" "SK r \<le> SK r'"
  shows "createdAt r \<le> createdAt r'"
proof -
  have "createdAt r @ (''#'' @ diagramId r) \<le> createdAt r' @ (''#'' @ diagramId r')"
    using assms by (simp add: written_by_create_def)
  moreover have "length (createdAt r) = length (createdAt r')"
    using assms by (simp add: written_by_create_def)
  ultimately show ?thesis
    by (rule lex_prefix_le [rotated])
qed

lemma QueryCommand_descending:
  assumes "QueryCommand env pk None False w = Inr items"
  shows "items = take (page_size env) (rev (sort_key SK (filter (\<lambda>r. PK r = pk) (table w))))
       \<and> sorted_wrt (\<lambda>x y. SK y \<le> SK x) items"
proof -
  have i: "items = take (page_size env) (rev (sort_key SK (filter (\<lambda>r. PK r = pk) (table w))))"
    using assms by (simp add: QueryCommand_def split: option.splits)
  have "sorted (map SK (sort_key SK (filter (\<lambda>r. PK r = pk) (table w))))"
    by (rule sorted_sort_key)
  then have "sorted_wrt (\<lambda>x y. SK x \<le> SK y) (sort_key SK (filter (\<lambda>r. PK r = pk) (table w)))"
    by (simp add: sorted_wrt_map)
  then have "sorted_wrt (\<lambda>x y. SK y \<le> SK x)
      (rev (sort_key SK (filter (\<lambda>r. PK r = pk) (table w))))"
    by (simp add: sorted_wrt_rev)
  then have "sorted_wrt (\<lambda>x y. SK y \<le> SK x) items"
    unfolding i by (rule sorted_wrt_take)
  with i show ?thesis by simp
qed

lemma fulfilled_resolve:
  "rejected (map (resolve env w) items) = [] \<Longrightarrow>
     map view_createdAt (fulfilled (map (resolve env w) items)) = map createdAt items
     \<and> map view_diagramId (fulfilled (map (resolve env w) items)) = map diagramId items"
proof (induction items)
  case Nil
  then show ?case by simp
next
  case (Cons it items)
  then show ?case
    by (auto simp: resolve_def split: sum.splits)
qed

lemma promise_all_resolve:
  assumes "promise_all n (map (resolve env w) items) = Inr vs"
  shows "map view_createdAt vs = map createdAt items
       \<and> map view_diagramId vs = map diagramId items"
proof -
  have "rejected (map (resolve env w) items) = []"
    and "vs = fulfilled (map (resolve env w) items)"
    using assms by (auto simp: promise_all_def split: list.splits)
  then show ?thesis
    using fulfilled_resolve [of env w items] by simp
qed

lemma createDiagram_keeps_shape:
  assumes "createDiagram env ev w = (res, w')"
    and "length (clock_iso env) = 24"
    and "\<forall>r \<in> set (table w). written_by_create r"
  shows "\<forall>r \<in> set (table w'). written_by_create r"
  using createDiagram_effect [OF assms(1), of "[]" "[]" "[]" "[]"] assms(2,3)
  by (elim disjE exE conjE) (auto simp: written_by_create_def)

lemma list_two:
  "listDiagrams env_ok ev_diagram w_two
     = (\<lparr>statusCode = 200, body = Diagrams [view_cd, view_ab]\<rparr>, w_two)"
  by (simp add: w_two_eq listDiagrams_def resolve_def handler_defs scenario_defs
      view_cd_def view_ab_def)

lemma list_one:
  "listDiagrams env_small_page ev_diagram w_two
     = (\<lparr>statusCode = 200, body = Diagrams [view_cd]\<rparr>, w_two)"
  by (simp add: w_two_eq listDiagrams_def resolve_def handler_defs scenario_defs
      view_cd_def)

text \<open>
  C6, as the specification states it, fails: two Creates of the same user in the same
  millisecond (the state \<open>w_two\<close>) write two rows with the same \<open>createdAt\<close>, List returns
  both, and the sequence of their \<open>createdAt\<close> values is not strictly descending.
\<close>

theorem C6_counterexample:
  "w_one = snd (createDiagram env_ok ev_create w_empty)
   \<and> w_two = snd (createDiagram env_again ev_create w_one)
   \<and> getUserId ev_diagram = Inr ''u1''
   \<and> listDiagrams env_ok ev_diagram w_two
       = (\<lparr>statusCode = 200, body = Diagrams [view_cd, view_ab]\<rparr>, w_two)
   \<and> view_createdAt view_cd = view_createdAt view_ab
   \<and> \<not> (view_createdAt view_cd > view_createdAt view_ab)"
proof -
  have a: "w_one = snd (createDiagram env_ok ev_create w_empty)"
    "w_two = snd (createDiagram env_again ev_create w_one)"
    by (simp_all add: w_two_def w_one_def)
  have u: "getUserId ev_diagram = Inr ''u1''"
    by (simp add: getUserId_def ev_diagram_def)
  have c: "view_createdAt view_cd = view_createdAt view_ab"
    "\<not> (view_createdAt view_cd > view_createdAt view_ab)"
    by (simp_all add: view_cd_def view_ab_def)
  show ?thesis
    using a u list_two c by blast
qed

text \<open>
  C6, amended. For a resolved caller whose rows all have the shape Create gives them,
  a List that answers with diagrams returns the first page of the caller's rows in
  descending order of their sort keys, which is all of them when they fit in one page;
  the \<open>createdAt\<close> values of the answer are descending, not necessarily strictly: each
  one is at least the next.
\<close>

theorem C6_descending:
  assumes "getUserId ev = Inr userId"
    and "\<forall>r \<in> set (rows_of userId w). written_by_create r"
    and "listDiagrams env ev w = (res, w')" and "body res = Diagrams ds"
  shows "sorted_wrt (\<lambda>x y. x \<ge> y) (map view_createdAt ds)
       \<and> map view_diagramId ds
           = map diagramId (take (page_size env) (rev (sort_key SK (rows_of userId w))))
       \<and> (length (rows_of userId w) \<le> page_size env \<longrightarrow>
            map view_diagramId ds = map diagramId (rev (sort_key SK (rows_of userId w))))"
proof -
  obtain items where q: "QueryCommand env (''USER#'' @ userId) None False w = Inr items"
    and p: "promise_all (first_rejected env) (map (resolve env w) items) = Inr ds"
    using assms(1,3,4) by (auto simp: listDiagrams_def failed_def split: sum.splits)
  have i: "items = take (page_size env) (rev (sort_key SK (rows_of userId w)))"
    "sorted_wrt (\<lambda>x y. SK y \<le> SK x) items"
    using QueryCommand_descending [OF q] by (simp add: rows_of_def, blast)
  have wf: "\<forall>r \<in> set items. written_by_create r"
    using assms(2) i(1) by (auto dest: in_set_takeD)
  have "sorted_wrt (\<lambda>x y. createdAt y \<le> createdAt x) items"
    using i(2) wf
    by (rule_tac sorted_wrt_mono_rel [of items "\<lambda>x y. SK y \<le> SK x"])
       (auto intro: written_by_create_mono)
  then have "sorted_wrt (\<lambda>x y. x \<ge> y) (map createdAt items)"
    by (simp add: sorted_wrt_map)
  then have o: "sorted_wrt (\<lambda>x y. x \<ge> y) (map view_createdAt ds)"
    using promise_all_resolve [OF p] by simp
  have f: "map view_diagramId ds
      = map diagramId (take (page_size env) (rev (sort_key SK (rows_of userId w))))"
    using promise_all_resolve [OF p] i(1) by simp
  have "take (page_size env) (rev (sort_key SK (rows_of userId w)))
      = rev (sort_key SK (rows_of userId w))"
    if "length (rows_of userId w) \<le> page_size env"
    using that by simp
  with o f show ?thesis by simp
qed

text \<open>The two rows of \<open>u1\<close> in \<open>w_two\<close> fit in a page of 100 items and are both listed;
  with a page of one item, List returns the first of them only.\<close>

theorem C6_witness:
  "getUserId ev_diagram = Inr ''u1''
   \<and> rows_of ''u1'' w_two = [row_cd, row_ab]
   \<and> written_by_create row_cd \<and> written_by_create row_ab
   \<and> page_size env_ok = 100
   \<and> listDiagrams env_ok ev_diagram w_two
       = (\<lparr>statusCode = 200, body = Diagrams [view_cd, view_ab]\<rparr>, w_two)
   \<and> view_createdAt view_cd \<ge> view_createdAt view_ab
   \<and> map view_diagramId [view_cd, view_ab] = [''1714557600000-cd'', ''1714557600000-ab'']
   \<and> page_size env_small_page = 1
   \<and> listDiagrams env_small_page ev_diagram w_two
       = (\<lparr>statusCode = 200, body = Diagrams [view_cd]\<rparr>, w_two)
   \<and> map view_diagramId [view_cd] = map diagramId (take 1 [row_cd, row_ab])"
proof -
  have u: "getUserId ev_diagram = Inr ''u1''"
    by (simp add: getUserId_def ev_diagram_def)
  have r: "rows_of ''u1'' w_two = [row_cd, row_ab]"
    by (simp add: rows_of_def w_two_eq) (simp add: row_cd_def row_ab_def)
  have o: "rev (sort_key SK (rows_of ''u1'' w_two)) = [row_cd, row_ab]"
    by (simp add: r) (simp add: row_cd_def row_ab_def)
  have s: "written_by_create row_cd" "written_by_create row_ab"
    by (simp_all add: written_by_create_def row_cd_def row_ab_def)
  then have a: "\<forall>r \<in> set (rows_of ''u1'' w_two). written_by_create r"
    by (simp add: r)
  have n: "page_size env_ok = 100" "page_size env_small_page = 1"
    by (simp_all add: env_small_page_def env_ok_def)
  have len: "length (rows_of ''u1'' w_two) \<le> page_size env_ok"
    by (simp add: r n)
  have b: "body \<lparr>statusCode = 200, body = Diagrams [view_cd, view_ab]\<rparr>
             = Diagrams [view_cd, view_ab]"
    "body \<lparr>statusCode = 200, body = Diagrams [view_cd]\<rparr> = Diagrams [view_cd]"
    by simp_all
  note full = C6_descending [OF u a list_two b(1)]
  have "sorted_wrt (\<lambda>x y. x \<ge> y) (map view_createdAt [view_cd, view_ab])"
    using full by blast
  then have d1: "view_createdAt view_cd \<ge> view_createdAt view_ab"
    by simp
  have "map view_diagramId [view_cd, view_ab]
      = map diagramId (rev (sort_key SK (rows_of ''u1'' w_two)))"
    using full len by blast
  then have d2:
    "map view_diagramId [view_cd, view_ab] = [''1714557600000-cd'', ''1714557600000-ab'']"
    by (simp only: o) (simp add: row_cd_def row_ab_def)
  have "map view_diagramId [view_cd]
      = map diagramId (take (page_size env_small_page) (rev (sort_key SK (rows_of ''u1'' w_two))))"
    using C6_descending [OF u a list_one b(2)] by blast
  then have e: "map view_diagramId [view_cd] = map diagramId (take 1 [row_cd, row_ab])"
    by (simp only: o n)
  show ?thesis
    using u r s n list_two list_one d1 d2 e by blast
qed

end
